theory Spec2Isabelle
  imports Main "HOL-Library.Word"
begin

section \<open>JavaScript values\<close>

text \<open>
  A JavaScript string is a sequence of UTF-16 code units. String literals of the
  source are ASCII and are written \<open>lit ''...''\<close>.
\<close>

type_synonym jstring = "16 word list"

definition lit :: "string \<Rightarrow> jstring" where
  "lit s = map of_char s"

text \<open>
  The values that \<open>JSON.parse\<close> (and so \<open>Response.json()\<close> and \<open>Request.json()\<close>)
  produces. The number type is a parameter: the program never computes with numbers, it
  only passes them on, tests their truthiness and prints them. An object is the list of
  its own properties; \<open>JSON.parse\<close> makes their keys distinct. The value \<open>undefined\<close>
  is \<open>None\<close> of \<open>'n json option\<close>.
\<close>

datatype 'n json =
    JNull
  | JBool bool
  | JNum 'n
  | JStr jstring
  | JArr "'n json list"
  | JObj "(jstring \<times> 'n json) list"

text \<open>A thrown value: an \<open>Error\<close> object (also \<open>TypeError\<close>, \<open>SyntaxError\<close>) with its \<open>message\<close>.\<close>

datatype exn = JsError (message: jstring)

text \<open>
  What the program takes from the JavaScript engine and does not define itself:
  truthiness and printing of numbers, \<open>Number(s)\<close>, \<open>JSON.stringify\<close>, and the
  messages of the errors the platform raises in this program (reading a property of
  \<open>null\<close>; converting an object with no usable \<open>toString\<close> to a string; making a
  response with a status it does not accept).
\<close>

record 'n engine =
  number_truthy :: "'n \<Rightarrow> bool"
  number_to_string :: "'n \<Rightarrow> jstring"
  Number :: "jstring \<Rightarrow> 'n"
  JSON_stringify :: "'n json \<Rightarrow> jstring"
  null_property_message :: "jstring \<Rightarrow> jstring"
  to_primitive_message :: "jstring"
  invalid_status_message :: "nat \<Rightarrow> jstring"

text \<open>\<open>ToBoolean\<close>: \<open>undefined\<close>, \<open>null\<close>, \<open>false\<close>, the empty string and the falsy numbers are falsy.\<close>

fun truthy :: "'n engine \<Rightarrow> 'n json option \<Rightarrow> bool" where
  "truthy E None = False"
| "truthy E (Some JNull) = False"
| "truthy E (Some (JBool b)) = b"
| "truthy E (Some (JNum n)) = number_truthy E n"
| "truthy E (Some (JStr s)) = (s \<noteq> [])"
| "truthy E (Some (JArr xs)) = True"
| "truthy E (Some (JObj kvs)) = True"

text \<open>
  A \<open>string | undefined\<close> (or \<open>string | null\<close>) value under a truthiness test
  \<open>if (!x) ... else ...\<close>: \<open>None\<close> when it is falsy (\<open>undefined\<close>, \<open>null\<close> or the empty
  string), the string otherwise.
\<close>

fun truthy_value :: "jstring option \<Rightarrow> jstring option" where
  "truthy_value None = None"
| "truthy_value (Some s) = (if s = [] then None else Some s)"

text \<open>
  \<open>v.k\<close> for a value \<open>v\<close> that is not \<open>null\<close>, and a name \<open>k\<close> that no built-in
  prototype defines (all names this program reads are such: \<open>detail\<close>, \<open>error\<close>,
  \<open>message\<close>, \<open>data\<close>, \<open>url\<close>, \<open>prompt\<close>, ...): the own property of an object, and
  \<open>undefined\<close> on every other value.
\<close>

fun get_prop :: "'n json \<Rightarrow> jstring \<Rightarrow> 'n json option" where
  "get_prop (JObj kvs) k = map_of kvs k"
| "get_prop v k = None"

text \<open>\<open>v.k\<close>: reading a property of \<open>null\<close> throws a \<open>TypeError\<close>.\<close>

definition member :: "'n engine \<Rightarrow> 'n json \<Rightarrow> jstring \<Rightarrow> exn + 'n json option" where
  "member E v k =
     (if v = JNull then Inl (JsError (null_property_message E k)) else Inr (get_prop v k))"

text \<open>\<open>v?.k\<close>: \<open>undefined\<close> when \<open>v\<close> is \<open>null\<close> or \<open>undefined\<close>.\<close>

fun opt_member :: "'n json option \<Rightarrow> jstring \<Rightarrow> 'n json option" where
  "opt_member None k = None"
| "opt_member (Some JNull) k = None"
| "opt_member (Some v) k = get_prop v k"

text \<open>
  \<open>v?.[0]\<close>: the first element of an array, the first code unit of a string, the
  property \<open>"0"\<close> of an object.
\<close>

fun opt_index0 :: "'n json option \<Rightarrow> 'n json option" where
  "opt_index0 None = None"
| "opt_index0 (Some JNull) = None"
| "opt_index0 (Some (JArr [])) = None"
| "opt_index0 (Some (JArr (x # xs))) = Some x"
| "opt_index0 (Some (JStr [])) = None"
| "opt_index0 (Some (JStr (c # cs))) = Some (JStr [c])"
| "opt_index0 (Some (JObj kvs)) = map_of kvs (lit ''0'')"
| "opt_index0 (Some v) = None"

text \<open>\<open>a || b\<close> where \<open>b\<close> is a value that is not \<open>undefined\<close>.\<close>

fun or_else :: "'n engine \<Rightarrow> 'n json option \<Rightarrow> 'n json \<Rightarrow> 'n json" where
  "or_else E None b = b"
| "or_else E (Some a) b = (if truthy E (Some a) then a else b)"

text \<open>
  \<open>ToString\<close>, as a template literal and \<open>new Error(v)\<close> apply it. An array prints its
  elements joined by commas, \<open>null\<close> elements as the empty string. An object prints as
  \<open>[object Object]\<close> through \<open>Object.prototype.toString\<close>, unless it has an own property
  \<open>toString\<close>: a parsed value is never callable, so no conversion method is left and a
  \<open>TypeError\<close> is thrown.
\<close>

fun to_string :: "'n engine \<Rightarrow> 'n json \<Rightarrow> exn + jstring"
  and join_elems :: "'n engine \<Rightarrow> 'n json list \<Rightarrow> exn + jstring" where
  "to_string E JNull = Inr (lit ''null'')"
| "to_string E (JBool b) = Inr (lit (if b then ''true'' else ''false''))"
| "to_string E (JNum n) = Inr (number_to_string E n)"
| "to_string E (JStr s) = Inr s"
| "to_string E (JArr xs) = join_elems E xs"
| "to_string E (JObj kvs) =
     (if lit ''toString'' \<in> fst ` set kvs then Inl (JsError (to_primitive_message E))
      else Inr (lit ''[object Object]''))"
| "join_elems E [] = Inr []"
| "join_elems E (x # xs) =
     (case (case x of JNull \<Rightarrow> Inr [] | _ \<Rightarrow> to_string E x) of
        Inl e \<Rightarrow> Inl e
      | Inr s \<Rightarrow>
          (case xs of
             [] \<Rightarrow> Inr s
           | _ # _ \<Rightarrow>
               (case join_elems E xs of
                  Inl e \<Rightarrow> Inl e
                | Inr r \<Rightarrow> Inr (s @ lit '','' @ r))))"

text \<open>\<open>String.prototype.includes\<close>: \<open>t\<close> occurs in \<open>s\<close> as a contiguous run.\<close>

fun js_includes :: "jstring \<Rightarrow> jstring \<Rightarrow> bool" where
  "js_includes [] t = (t = [])"
| "js_includes (c # s) t = (take (length t) (c # s) = t \<or> js_includes s t)"

section \<open>The fetch interface\<close>

text \<open>
  A \<open>Response\<close> as the program reads it: \<open>status\<close>, \<open>statusText\<close>,
  \<open>headers.get("content-type")\<close>, and what the calls \<open>json()\<close> and \<open>text()\<close> give when the
  program makes them: a value, or a rejection. The field \<open>res_text\<close> is the outcome of
  \<open>text()\<close> at the point where the program calls it. In one path that is after \<open>json()\<close>
  has failed on the same body; the Fetch standard lets a body be read once, and the model
  leaves the outcome of that second read open.
\<close>

record 'n response =
  status :: nat
  statusText :: jstring
  content_type :: "jstring option"
  res_json :: "exn + 'n json"
  res_text :: "exn + jstring"

text \<open>\<open>Response.ok\<close>: the status is in the range 200 to 299.\<close>

definition ok :: "'n response \<Rightarrow> bool" where
  "ok r = (200 \<le> status r \<and> status r \<le> 299)"

text \<open>
  A call \<open>fetch(url, {method, headers, body: JSON.stringify(payload)})\<close>. The body is kept
  as the payload object that is handed to \<open>JSON.stringify\<close>; a field that is \<open>undefined\<close>
  (\<open>None\<close>) is left out of the text by \<open>JSON.stringify\<close>.
\<close>

record 'p fetch_init =
  http_method :: jstring
  headers :: "(jstring \<times> jstring) list"
  body_payload :: 'p

datatype 'p call = Fetch (url: jstring) (init: "'p fetch_init")

section \<open>The gateway: \<open>src/app/api/generate-friendli/route.ts\<close>\<close>

text \<open>The three values of \<open>process.env\<close> the route reads; \<open>None\<close> is an unset variable.\<close>

record env =
  FRIENDLI_API_TOKEN :: "jstring option"
  FRIENDLI_API_ENDPOINT :: "jstring option"
  FRIENDLI_ENDPOINT_ID :: "jstring option"

text \<open>
  \<open>FriendliApiPayload\<close>. The client's body is not validated, so each copied field is
  whatever the parsed body holds under that name, or \<open>undefined\<close>.
\<close>

record 'n FriendliApiPayload =
  model :: jstring
  fr_prompt :: "'n json option"
  fr_negative_prompt :: "'n json option"
  fr_num_inference_steps :: "'n json option"
  fr_guidance_scale :: "'n json option"
  fr_width :: "'n json option"
  fr_height :: "'n json option"
  fr_response_format :: "'n json option"

text \<open>A response of the route: its JSON body and its status.\<close>

datatype 'n next_response = NextResponse (data: "'n json") (init_status: nat)

text \<open>
  \<open>NextResponse.json(data, { status })\<close> makes the response through the \<open>Response\<close>
  constructor, which throws a \<open>RangeError\<close> for a status outside 200 to 599 and a
  \<open>TypeError\<close> for a body together with one of the null-body statuses 204, 205, 304.
\<close>

definition NextResponse_json :: "'n engine \<Rightarrow> 'n json \<Rightarrow> nat \<Rightarrow> exn + 'n next_response" where
  "NextResponse_json E body st =
     (if st < 200 \<or> 599 < st \<or> st \<in> {204, 205, 304}
      then Inl (JsError (invalid_status_message E st))
      else Inr (NextResponse body st))"

text \<open>
  Lines 64 to 74: the payload for the provider. Reading \<open>clientPayload.prompt\<close> throws
  when the parsed body is \<open>null\<close>; the other reads then cannot.
\<close>

definition payloadForFriendli ::
  "'n engine \<Rightarrow> jstring \<Rightarrow> 'n json \<Rightarrow> exn + 'n FriendliApiPayload" where
  "payloadForFriendli E friendliModelId clientPayload =
     (case member E clientPayload (lit ''prompt'') of
        Inl e \<Rightarrow> Inl e
      | Inr p \<Rightarrow>
          Inr \<lparr> model = friendliModelId,
                fr_prompt = p,
                fr_negative_prompt = get_prop clientPayload (lit ''negative_prompt''),
                fr_num_inference_steps = get_prop clientPayload (lit ''num_inference_steps''),
                fr_guidance_scale = get_prop clientPayload (lit ''guidance_scale''),
                fr_width = get_prop clientPayload (lit ''width''),
                fr_height = get_prop clientPayload (lit ''height''),
                fr_response_format = get_prop clientPayload (lit ''response_format'') \<rparr>)"

text \<open>Lines 80 to 87: the outbound call.\<close>

definition friendli_call :: "jstring \<Rightarrow> jstring \<Rightarrow> 'n FriendliApiPayload \<Rightarrow> 'n FriendliApiPayload call" where
  "friendli_call endpoint token payload =
     Fetch endpoint
       \<lparr> http_method = lit ''POST'',
         headers = [(lit ''Content-Type'', lit ''application/json''),
                    (lit ''Authorization'', lit ''Bearer '' @ token)],
         body_payload = payload \<rparr>"

text \<open>
  Lines 92 to 103: the inner \<open>try\<close> parses the body and takes the first truthy of
  \<open>detail\<close>, \<open>error?.message\<close>, \<open>error\<close>, else \<open>JSON.stringify\<close> of the body; its
  \<open>catch\<close> reads the body as text, and the \<open>catch\<close> of that takes \<open>statusText\<close>.
\<close>

definition errorDetails :: "'n engine \<Rightarrow> 'n response \<Rightarrow> 'n json" where
  "errorDetails E r =
     (case (case res_json r of
              Inl e \<Rightarrow> Inl e
            | Inr errorJson \<Rightarrow>
                (case member E errorJson (lit ''detail'') of
                   Inl e \<Rightarrow> Inl e
                 | Inr detail \<Rightarrow>
                     Inr (or_else E detail
                           (or_else E (opt_member (get_prop errorJson (lit ''error'')) (lit ''message''))
                             (or_else E (get_prop errorJson (lit ''error''))
                               (JStr (JSON_stringify E errorJson))))))) of
        Inr d \<Rightarrow> d
      | Inl jsonError \<Rightarrow>
          (case res_text r of
             Inr t \<Rightarrow> JStr t
           | Inl textError \<Rightarrow> JStr (statusText r)))"

text \<open>Line 111: \<open>contentType && contentType.includes("application/json")\<close>.\<close>

definition is_json_content_type :: "jstring option \<Rightarrow> bool" where
  "is_json_content_type contentType =
     (case contentType of
        None \<Rightarrow> False
      | Some ct \<Rightarrow> ct \<noteq> [] \<and> js_includes ct (lit ''application/json''))"

text \<open>
  Lines 90 to 122: what the route does with the provider's response. The template
  literal of lines 104 and 106 converts \<open>errorDetails\<close> to a string, which can throw.
\<close>

definition handle_response :: "'n engine \<Rightarrow> 'n response \<Rightarrow> exn + 'n next_response" where
  "handle_response E friendliResponse =
     (if \<not> ok friendliResponse then
        (case to_string E (errorDetails E friendliResponse) of
           Inl e \<Rightarrow> Inl e
         | Inr s \<Rightarrow>
             NextResponse_json E (JObj [(lit ''error'', JStr (lit ''Friendli API Error: '' @ s))])
               (status friendliResponse))
      else if is_json_content_type (content_type friendliResponse) then
        (case res_json friendliResponse of
           Inl e \<Rightarrow> Inl e
         | Inr responseData \<Rightarrow> NextResponse_json E responseData 200)
      else
        (case res_text friendliResponse of
           Inl e \<Rightarrow> Inl e
         | Inr responseText \<Rightarrow>
             NextResponse_json E
               (JObj [(lit ''error'', JStr (lit ''Received unexpected response format from Friendli API.''))])
               500))"

text \<open>
  Lines 59 to 123, the body of the outer \<open>try\<close>: its outcome (a response, or the
  exception that reaches the \<open>catch\<close>) and the outbound calls made. \<open>request_json\<close> is
  the outcome of \<open>request.json()\<close>, \<open>net\<close> the outcome of \<open>fetch\<close> for a call.
\<close>

definition try_block ::
  "'n engine \<Rightarrow> jstring \<Rightarrow> jstring \<Rightarrow> jstring \<Rightarrow> (exn + 'n json) \<Rightarrow>
   ('n FriendliApiPayload call \<Rightarrow> exn + 'n response) \<Rightarrow>
   (exn + 'n next_response) \<times> 'n FriendliApiPayload call list" where
  "try_block E token endpoint friendliModelId request_json net =
     (case request_json of
        Inl e \<Rightarrow> (Inl e, [])
      | Inr clientPayload \<Rightarrow>
          (case payloadForFriendli E friendliModelId clientPayload of
             Inl e \<Rightarrow> (Inl e, [])
           | Inr payload \<Rightarrow>
               (case net (friendli_call endpoint token payload) of
                  Inl e \<Rightarrow> (Inl e, [friendli_call endpoint token payload])
                | Inr friendliResponse \<Rightarrow>
                    (handle_response E friendliResponse,
                     [friendli_call endpoint token payload]))))"

text \<open>Lines 124 to 128: the outer \<open>catch\<close>.\<close>

definition catch_internal :: "'n engine \<Rightarrow> exn \<Rightarrow> exn + 'n next_response" where
  "catch_internal E error =
     NextResponse_json E
       (JObj [(lit ''error'', JStr (if message error \<noteq> [] then message error
                      else lit ''Internal Server Error occurred in API route.''))])
       500"

text \<open>
  The handler \<open>POST\<close>. The result is the response returned, or \<open>Inl\<close> for an exception
  that leaves the handler, together with the outbound calls made.
\<close>

definition config_error ::
  "'n engine \<Rightarrow> string \<Rightarrow> (exn + 'n next_response) \<times> 'p call list" where
  "config_error E what =
     (NextResponse_json E
        (JObj [(lit ''error'', JStr (lit ''Server configuration error: '' @ lit what @ lit '' missing.''))]) 500,
      [])"

definition POST ::
  "'n engine \<Rightarrow> env \<Rightarrow> (exn + 'n json) \<Rightarrow>
   ('n FriendliApiPayload call \<Rightarrow> exn + 'n response) \<Rightarrow>
   (exn + 'n next_response) \<times> 'n FriendliApiPayload call list" where
  "POST E env request_json net =
     (case truthy_value (FRIENDLI_API_TOKEN env) of
        None \<Rightarrow> config_error E ''API token''
      | Some token \<Rightarrow>
          (case truthy_value (FRIENDLI_API_ENDPOINT env) of
             None \<Rightarrow> config_error E ''API endpoint''
           | Some endpoint \<Rightarrow>
               (case truthy_value (FRIENDLI_ENDPOINT_ID env) of
                  None \<Rightarrow> config_error E ''Endpoint ID''
                | Some friendliModelId \<Rightarrow>
                    (case try_block E token endpoint friendliModelId request_json net of
                       (Inl e, calls) \<Rightarrow> (catch_internal E e, calls)
                     | (Inr res, calls) \<Rightarrow> (Inr res, calls)))))"

section \<open>The composer: \<open>handleGenerateClick\<close> of the page component\<close>

text \<open>
  \<open>String.prototype.trim\<close> removes white space and line terminators from both ends:
  TAB, LF, VT, FF, CR, SPACE, NBSP, U+1680, U+2000 to U+200A, U+2028, U+2029, U+202F,
  U+205F, U+3000 and U+FEFF, each a single code unit.
\<close>

definition is_js_whitespace :: "16 word \<Rightarrow> bool" where
  "is_js_whitespace c =
     (c \<in> {0x9, 0xA, 0xB, 0xC, 0xD, 0x20, 0xA0, 0x1680, 0x2028, 0x2029, 0x202F, 0x205F,
            0x3000, 0xFEFF}
      \<or> (0x2000 \<le> c \<and> c \<le> 0x200A))"

definition trim :: "jstring \<Rightarrow> jstring" where
  "trim s = rev (dropWhile is_js_whitespace (rev (dropWhile is_js_whitespace s)))"

text \<open>
  \<open>s.split(sep)\<close> for a separator of one code unit; \<open>acc\<close> holds the current piece,
  reversed. The empty string splits into one empty piece.
\<close>

fun split_acc :: "16 word \<Rightarrow> jstring \<Rightarrow> jstring \<Rightarrow> jstring list" where
  "split_acc sep acc [] = [rev acc]"
| "split_acc sep acc (c # cs) =
     (if c = sep then rev acc # split_acc sep [] cs else split_acc sep (c # acc) cs)"

definition split :: "jstring \<Rightarrow> 16 word \<Rightarrow> jstring list" where
  "split s sep = split_acc sep [] s"

text \<open>\<open>xs[i]\<close> on an array: \<open>undefined\<close> out of range.\<close>

definition at_index :: "'a list \<Rightarrow> nat \<Rightarrow> 'a option" where
  "at_index xs i = (if i < length xs then Some (xs ! i) else None)"

text \<open>Lines 95 to 99: one entry of the history.\<close>

record ('n, 't) history_entry =
  imageUrl :: "'n json"
  entry_prompt :: jstring
  timestamp :: 't

text \<open>
  Lines 85 to 103: the state of the component. \<open>generatedImageUrl\<close> is declared a string
  in the source but receives whatever truthy value the response holds at
  \<open>data[0].url\<close>. \<open>'t\<close> is the type of \<open>Date\<close>.
\<close>

record ('n, 't) page_state =
  prompt :: jstring
  negativePrompt :: jstring
  resolution :: jstring
  steps :: "'n list"
  guidanceScale :: "'n list"
  generatedImageUrl :: "'n json option"
  isLoading :: bool
  error :: "jstring option"
  lastGeneratedPrompt :: "jstring option"
  currentBlobUrl :: "jstring option"
  generationHistory :: "('n, 't) history_entry list"
  showHistory :: bool
  isCopied :: bool
  stylePreset :: jstring
  showSuggestions :: bool

text \<open>Lines 161 to 171: the payload sent to the route.\<close>

record 'n api_route_payload =
  payload_prompt :: jstring
  negative_prompt :: "jstring option"
  num_inference_steps :: "'n option"
  guidance_scale :: "'n option"
  width :: "'n option"
  height :: "'n option"
  response_format :: jstring

text \<open>What the handler does to the world: a \<open>fetch\<close>, or \<open>URL.revokeObjectURL\<close>.\<close>

datatype 'n effect = Network "'n api_route_payload call" | RevokeObjectURL jstring

text \<open>Lines 109 to 112.\<close>

definition getResolutionDimensions :: "'n engine \<Rightarrow> jstring \<Rightarrow> 'n option \<times> 'n option" where
  "getResolutionDimensions E resolutionString =
     (let parts = map (Number E) (split resolutionString (of_char CHR ''x''))
      in (at_index parts 0, at_index parts 1))"

definition payloadForApiRoute :: "'n engine \<Rightarrow> ('n, 't) page_state \<Rightarrow> 'n api_route_payload" where
  "payloadForApiRoute E st =
     (case getResolutionDimensions E (resolution st) of
        (w, h) \<Rightarrow>
          \<lparr> payload_prompt = prompt st,
            negative_prompt = truthy_value (Some (negativePrompt st)),
            num_inference_steps = at_index (steps st) 0,
            guidance_scale = at_index (guidanceScale st) 0,
            width = w,
            height = h,
            response_format = lit ''url'' \<rparr>)"

text \<open>Lines 176 to 183.\<close>

definition api_route_call :: "'n engine \<Rightarrow> ('n, 't) page_state \<Rightarrow> 'n api_route_payload call" where
  "api_route_call E st =
     Fetch (lit ''/api/generate-friendli'')
       \<lparr> http_method = lit ''POST'',
         headers = [(lit ''Content-Type'', lit ''application/json'')],
         body_payload = payloadForApiRoute E st \<rparr>"

text \<open>Line 199: \<open>responseData?.data?.[0]?.url\<close>.\<close>

definition imageUrlFromApi :: "'n json \<Rightarrow> 'n json option" where
  "imageUrlFromApi responseData =
     opt_member (opt_index0 (opt_member (Some responseData) (lit ''data''))) (lit ''url'')"

text \<open>
  Lines 186 to 214: what the handler does with the route's response: the new state, or
  the exception thrown. \<open>new Error(v)\<close> converts \<open>v\<close> to a string, which can itself throw.
\<close>

definition process_response ::
  "'n engine \<Rightarrow> 't \<Rightarrow> 'n response \<Rightarrow> ('n, 't) page_state \<Rightarrow> exn + ('n, 't) page_state" where
  "process_response E generationTimestamp internalApiResponse st =
     (case res_json internalApiResponse of
        Inl e \<Rightarrow> Inl e
      | Inr responseData \<Rightarrow>
          if \<not> ok internalApiResponse then
            (case member E responseData (lit ''error'') of
               Inl e \<Rightarrow> Inl e
             | Inr err \<Rightarrow>
                 (case to_string E
                         (or_else E err
                            (JStr (lit ''API request failed: '' @ statusText internalApiResponse))) of
                    Inl e \<Rightarrow> Inl e
                  | Inr m \<Rightarrow> Inl (JsError m)))
          else
            (case imageUrlFromApi responseData of
               None \<Rightarrow> Inl (JsError (lit ''API response structure unexpected or missing image URL.''))
             | Some u \<Rightarrow>
                 if \<not> truthy E (Some u) then
                   Inl (JsError (lit ''API response structure unexpected or missing image URL.''))
                 else
                   Inr (st\<lparr> generatedImageUrl := Some u,
                             lastGeneratedPrompt := Some (prompt st),
                             generationHistory :=
                               \<lparr> imageUrl = u, entry_prompt = prompt st,
                                 timestamp = generationTimestamp \<rparr>
                               # take 9 (generationHistory st) \<rparr>)))"

text \<open>Lines 151 to 214, the body of the \<open>try\<close>.\<close>

definition generate_try ::
  "'n engine \<Rightarrow> 't \<Rightarrow> ('n api_route_payload call \<Rightarrow> exn + 'n response) \<Rightarrow>
   ('n, 't) page_state \<Rightarrow> (exn + ('n, 't) page_state) \<times> 'n effect list" where
  "generate_try E generationTimestamp net st =
     (case net (api_route_call E st) of
        Inl e \<Rightarrow> (Inl e, [Network (api_route_call E st)])
      | Inr internalApiResponse \<Rightarrow>
          (process_response E generationTimestamp internalApiResponse st,
           [Network (api_route_call E st)]))"

text \<open>Lines 216 to 220, the \<open>catch\<close>.\<close>

definition catch_generation :: "exn \<Rightarrow> ('n, 't) page_state \<Rightarrow> ('n, 't) page_state" where
  "catch_generation errorObject st =
     st\<lparr> error := Some (if message errorObject \<noteq> [] then message errorObject
                         else lit ''An unexpected error occurred during image generation.''),
         generatedImageUrl := None \<rparr>"

text \<open>
  Lines 140 to 149: the updates made before the \<open>try\<close>, and the temporary download URL
  revoked when there is one.
\<close>

definition begin_generation :: "('n, 't) page_state \<Rightarrow> ('n, 't) page_state \<times> 'n effect list" where
  "begin_generation st =
     (let st1 = st\<lparr> isLoading := True, error := None, generatedImageUrl := None,
                     lastGeneratedPrompt := None \<rparr>
      in case truthy_value (currentBlobUrl st) of
           None \<Rightarrow> (st1, [])
         | Some u \<Rightarrow> (st1\<lparr> currentBlobUrl := None \<rparr>, [RevokeObjectURL u]))"

text \<open>
  Lines 133 to 224: the handler, run to completion from the state \<open>st\<close> of the render
  that created it. \<open>now\<close> is \<open>new Date()\<close>, \<open>net\<close> the outcome of \<open>fetch\<close>. The result
  is the state after the handler's updates and the effects it had, in order.
\<close>

definition handleGenerateClick ::
  "'n engine \<Rightarrow> 't \<Rightarrow> ('n api_route_payload call \<Rightarrow> exn + 'n response) \<Rightarrow>
   ('n, 't) page_state \<Rightarrow> ('n, 't) page_state \<times> 'n effect list" where
  "handleGenerateClick E now net st =
     (if trim (prompt st) = [] then
        (st\<lparr> error := Some (lit ''Please enter a prompt to generate an image.'') \<rparr>, [])
      else
        (case begin_generation st of
           (st2, revoked) \<Rightarrow>
             (case generate_try E now net st2 of
                (outcome, calls) \<Rightarrow>
                  ((case outcome of
                      Inr s \<Rightarrow> s
                    | Inl errorObject \<Rightarrow> catch_generation errorObject st2)
                   \<lparr> isLoading := False \<rparr>,
                   revoked @ calls))))"

section \<open>The error message of a provider failure, in words\<close>

text \<open>
  The message taken from a failed provider response, stated as a priority list: when the
  body parses to a value other than \<open>null\<close>, the first truthy of \<open>detail\<close>,
  \<open>error.message\<close> and \<open>error\<close>, and failing those the body serialised again; when it
  does not, the text of the body, and failing that the status text.
\<close>

definition first_available :: "'n engine \<Rightarrow> 'n response \<Rightarrow> 'n json" where
  "first_available E r =
     (let unparsed = (case res_text r of Inr t \<Rightarrow> JStr t | Inl e \<Rightarrow> JStr (statusText r))
      in case res_json r of
           Inl e \<Rightarrow> unparsed
         | Inr j \<Rightarrow>
             if j = JNull then unparsed
             else (case find (truthy E)
                          [get_prop j (lit ''detail''),
                           opt_member (get_prop j (lit ''error'')) (lit ''message''),
                           get_prop j (lit ''error'')] of
                     Some (Some v) \<Rightarrow> v
                   | _ \<Rightarrow> JStr (JSON_stringify E j)))"

section \<open>Concrete runs\<close>

text \<open>
  An engine for the concrete runs below. Its numbers are the integers, printed in
  decimal; \<open>Number\<close> reads a run of decimal digits; \<open>JSON.stringify\<close> escapes the
  quote, the backslash and the control characters that have a short escape, which is
  all that strings of printable ASCII need.
\<close>

fun show_nat :: "nat \<Rightarrow> jstring" where
  "show_nat n =
     (if n < 10 then [of_nat (48 + n)] else show_nat (n div 10) @ [of_nat (48 + n mod 10)])"

definition show_int :: "int \<Rightarrow> jstring" where
  "show_int i = (if i < 0 then lit ''-'' @ show_nat (nat (- i)) else show_nat (nat i))"

definition read_nat :: "jstring \<Rightarrow> int" where
  "read_nat s = foldl (\<lambda>n c. 10 * n + (uint c - 48)) 0 s"

definition escape_unit :: "16 word \<Rightarrow> jstring" where
  "escape_unit c =
     (if c = 0x22 then lit [CHR 0x5C, CHR 0x22]
      else if c = 0x5C then lit [CHR 0x5C, CHR 0x5C]
      else if c = 0x08 then lit [CHR 0x5C, CHR ''b'']
      else if c = 0x09 then lit [CHR 0x5C, CHR ''t'']
      else if c = 0x0A then lit [CHR 0x5C, CHR ''n'']
      else if c = 0x0C then lit [CHR 0x5C, CHR ''f'']
      else if c = 0x0D then lit [CHR 0x5C, CHR ''r'']
      else [c])"

definition quote :: "jstring \<Rightarrow> jstring" where
  "quote s = lit [CHR 0x22] @ concat (map escape_unit s) @ lit [CHR 0x22]"

fun stringify :: "int json \<Rightarrow> jstring"
  and stringify_elems :: "int json list \<Rightarrow> jstring"
  and stringify_members :: "(jstring \<times> int json) list \<Rightarrow> jstring" where
  "stringify JNull = lit ''null''"
| "stringify (JBool b) = lit (if b then ''true'' else ''false'')"
| "stringify (JNum n) = show_int n"
| "stringify (JStr s) = quote s"
| "stringify (JArr xs) = lit ''['' @ stringify_elems xs @ lit '']''"
| "stringify (JObj kvs) = lit ''{'' @ stringify_members kvs @ lit ''}''"
| "stringify_elems [] = []"
| "stringify_elems [x] = stringify x"
| "stringify_elems (x # y # ys) = stringify x @ lit '','' @ stringify_elems (y # ys)"
| "stringify_members [] = []"
| "stringify_members [(k, v)] = quote k @ lit '':'' @ stringify v"
| "stringify_members ((k, v) # m # ms) =
     quote k @ lit '':'' @ stringify v @ lit '','' @ stringify_members (m # ms)"

definition example_engine :: "int engine" where
  "example_engine =
     \<lparr> number_truthy = (\<lambda>n. n \<noteq> 0),
       number_to_string = show_int,
       Number = read_nat,
       JSON_stringify = stringify,
       null_property_message =
         (\<lambda>k. lit (''Cannot read properties of null (reading '' @ [CHR 0x27]) @ k
                @ lit ([CHR 0x27] @ '')'')),
       to_primitive_message = lit ''Cannot convert object to primitive value'',
       invalid_status_message = (\<lambda>n. lit ''Invalid response status code '' @ show_nat n) \<rparr>"

text \<open>A network that answers every call with \<open>r\<close>, and one that fails every call with \<open>e\<close>.\<close>

definition respond_with :: "'n response \<Rightarrow> 'p call \<Rightarrow> exn + 'n response" where
  "respond_with r c = Inr r"

definition fail_with :: "exn \<Rightarrow> 'p call \<Rightarrow> exn + 'n response" where
  "fail_with e c = Inl e"

definition example_env :: env where
  "example_env =
     \<lparr> FRIENDLI_API_TOKEN = Some (lit ''secret''),
       FRIENDLI_API_ENDPOINT = Some (lit ''https://provider/v1/images/generations''),
       FRIENDLI_ENDPOINT_ID = Some (lit ''endpoint-1'') \<rparr>"

definition example_body :: "int json" where
  "example_body =
     JObj [(lit ''prompt'', JStr (lit ''a red cube'')),
           (lit ''num_inference_steps'', JNum 30),
           (lit ''guidance_scale'', JNum 7),
           (lit ''width'', JNum 1024),
           (lit ''height'', JNum 1024),
           (lit ''response_format'', JStr (lit ''url''))]"

definition rate_limited :: "int response" where
  "rate_limited =
     \<lparr> status = 429, statusText = lit ''Too Many Requests'',
       content_type = Some (lit ''application/json''),
       res_json =
         Inr (JObj [(lit ''error'', JObj [(lit ''message'', JStr (lit ''rate limited''))])]),
       res_text = Inl (JsError (lit ''Body is unusable'')) \<rparr>"

definition unavailable :: "int response" where
  "unavailable =
     \<lparr> status = 503, statusText = lit ''Service Unavailable'',
       content_type = Some (lit ''application/json''),
       res_json = Inr (JObj [(lit ''code'', JNum 17)]),
       res_text = Inl (JsError (lit ''Body is unusable'')) \<rparr>"

definition bad_request :: "int response" where
  "bad_request =
     \<lparr> status = 400, statusText = lit ''Bad Request'',
       content_type = Some (lit ''application/json''),
       res_json = Inr (JObj [(lit ''detail'', JStr (lit ''prompt too long''))]),
       res_text = Inl (JsError (lit ''Body is unusable'')) \<rparr>"

definition generated :: "int response" where
  "generated =
     \<lparr> status = 200, statusText = lit ''OK'',
       content_type = Some (lit ''application/json; charset=utf-8''),
       res_json =
         Inr (JObj [(lit ''data'', JArr [JObj [(lit ''url'', JStr (lit ''https://x/img.png''))]])]),
       res_text = Inl (JsError (lit ''Body is unusable'')) \<rparr>"

definition html_page :: "int response" where
  "html_page =
     \<lparr> status = 200, statusText = lit ''OK'',
       content_type = Some (lit ''text/html''),
       res_json = Inl (JsError (lit ''Unexpected token < in JSON at position 0'')),
       res_text = Inr (lit ''<html></html>'') \<rparr>"

definition capitalised :: "int response" where
  "capitalised =
     \<lparr> status = 200, statusText = lit ''OK'',
       content_type = Some (lit ''Application/JSON''),
       res_json =
         Inr (JObj [(lit ''data'', JArr [JObj [(lit ''url'', JStr (lit ''https://x/img.png''))]])]),
       res_text =
         Inr (stringify
                (JObj [(lit ''data'',
                        JArr [JObj [(lit ''url'', JStr (lit ''https://x/img.png''))]])])) \<rparr>"

definition truncated :: "int response" where
  "truncated =
     \<lparr> status = 200, statusText = lit ''OK'',
       content_type = Some (lit ''application/json''),
       res_json = Inl (JsError (lit ''Unexpected end of JSON input'')),
       res_text = Inl (JsError (lit ''Body is unusable'')) \<rparr>"

definition no_images :: "int response" where
  "no_images =
     \<lparr> status = 200, statusText = lit ''OK'',
       content_type = Some (lit ''application/json''),
       res_json = Inr (JObj [(lit ''data'', JArr [])]),
       res_text = Inl (JsError (lit ''Body is unusable'')) \<rparr>"

text \<open>The payload the example body yields, and the example body with a \<open>model\<close> field added.\<close>

definition example_payload :: "int FriendliApiPayload" where
  "example_payload =
     \<lparr> model = lit ''endpoint-1'',
       fr_prompt = Some (JStr (lit ''a red cube'')),
       fr_negative_prompt = None,
       fr_num_inference_steps = Some (JNum 30),
       fr_guidance_scale = Some (JNum 7),
       fr_width = Some (JNum 1024),
       fr_height = Some (JNum 1024),
       fr_response_format = Some (JStr (lit ''url'')) \<rparr>"

definition injected_body :: "int json" where
  "injected_body =
     JObj [(lit ''model'', JStr (lit ''endpoint-of-someone-else'')),
           (lit ''prompt'', JStr (lit ''a red cube'')),
           (lit ''num_inference_steps'', JNum 30),
           (lit ''guidance_scale'', JNum 7),
           (lit ''width'', JNum 1024),
           (lit ''height'', JNum 1024),
           (lit ''response_format'', JStr (lit ''url''))]"

text \<open>A page with the prompt entered and the default settings; dates are numbers.\<close>

definition example_page :: "(int, nat) page_state" where
  "example_page =
     \<lparr> prompt = lit ''a red cube'', negativePrompt = [], resolution = lit ''1024x1024'',
       steps = [30], guidanceScale = [7], generatedImageUrl = None, isLoading = False,
       error = None, lastGeneratedPrompt = None, currentBlobUrl = None,
       generationHistory = [], showHistory = False, isCopied = False,
       stylePreset = lit ''none'', showSuggestions = False \<rparr>"

definition full_history :: "(int, nat) history_entry list" where
  "full_history =
     map (\<lambda>i. \<lparr> imageUrl = JStr (lit ''https://x/old.png''), entry_prompt = lit ''old'',
                 timestamp = i \<rparr>) [0..<10]"

section \<open>Properties of the gateway\<close>

lemma POST_configured:
  assumes "truthy_value (FRIENDLI_API_TOKEN env) = Some token"
    and "truthy_value (FRIENDLI_API_ENDPOINT env) = Some endpoint"
    and "truthy_value (FRIENDLI_ENDPOINT_ID env) = Some friendliModelId"
  shows "POST E env request_json net =
           (case try_block E token endpoint friendliModelId request_json net of
              (Inl e, calls) \<Rightarrow> (catch_internal E e, calls)
            | (Inr res, calls) \<Rightarrow> (Inr res, calls))"
  using assms by (simp add: POST_def)

lemma NextResponse_json_accepted:
  "NextResponse_json E d 200 = Inr (NextResponse d 200)"
  "NextResponse_json E d 500 = Inr (NextResponse d 500)"
  "300 \<le> n \<Longrightarrow> n \<le> 599 \<Longrightarrow> n \<noteq> 304 \<Longrightarrow> NextResponse_json E d n = Inr (NextResponse d n)"
  by (auto simp: NextResponse_json_def)

lemma try_block_response:
  assumes "payloadForFriendli E friendliModelId clientPayload = Inr payload"
    and "net (friendli_call endpoint token payload) = Inr r"
  shows "try_block E token endpoint friendliModelId (Inr clientPayload) net =
           (handle_response E r, [friendli_call endpoint token payload])"
  using assms by (simp add: try_block_def)

lemma errorDetails_first_available: "errorDetails E r = first_available E r"
  by (auto simp: errorDetails_def first_available_def member_def Let_def
           split: sum.splits option.splits)

lemmas example_gateway_defs =
  NextResponse_json_def POST_def try_block_def payloadForFriendli_def member_def example_env_def example_body_def
  respond_with_def fail_with_def handle_response_def ok_def errorDetails_def
  config_error_def catch_internal_def is_json_content_type_def friendli_call_def

text \<open>
  C1. When any of the three configuration values is unset (or empty), the handler
  returns status 500 with the message that names the first missing value, and makes no
  outbound call, whatever the request and the network are.
\<close>

theorem missing_configuration_fails_closed:
  assumes "truthy_value (FRIENDLI_API_TOKEN env) = None
         \<or> truthy_value (FRIENDLI_API_ENDPOINT env) = None
         \<or> truthy_value (FRIENDLI_ENDPOINT_ID env) = None"
  shows "POST E env request_json net =
           (Inr (NextResponse
                   (JObj [(lit ''error'',
                      JStr (lit ''Server configuration error: '' @
                       lit (if truthy_value (FRIENDLI_API_TOKEN env) = None then ''API token''
                            else if truthy_value (FRIENDLI_API_ENDPOINT env) = None
                              then ''API endpoint''
                            else ''Endpoint ID'') @
                       lit '' missing.''))])
                   500),
            [])"
  using assms
  by (auto simp: POST_def config_error_def NextResponse_json_accepted split: option.splits)

theorem missing_configuration_witness:
  "truthy_value (FRIENDLI_ENDPOINT_ID (example_env\<lparr>FRIENDLI_ENDPOINT_ID := None\<rparr>)) = None \<and>
   POST example_engine (example_env\<lparr>FRIENDLI_ENDPOINT_ID := None\<rparr>) (Inr example_body)
        (respond_with rate_limited) =
     (Inr (NextResponse
             (JObj [(lit ''error'', JStr (lit ''Server configuration error: Endpoint ID missing.''))]) 500),
      [])"
  using missing_configuration_fails_closed
    [of "example_env\<lparr>FRIENDLI_ENDPOINT_ID := None\<rparr>" example_engine "Inr example_body"
        "respond_with rate_limited"]
  by (simp add: example_env_def lit_def)

text \<open>
  C2, as the code has it. For a provider response with a status outside 200 to 299 that
  a response with a body can carry (300 to 599, except 304), the handler returns the
  provider's status and the error string \<open>Friendli API Error: \<close> followed by the printed
  form of the first available message (\<open>first_available\<close>), when that value can be
  printed.
\<close>

theorem provider_error_forwarded:
  assumes "truthy_value (FRIENDLI_API_TOKEN env) = Some token"
    and "truthy_value (FRIENDLI_API_ENDPOINT env) = Some endpoint"
    and "truthy_value (FRIENDLI_ENDPOINT_ID env) = Some friendliModelId"
    and "payloadForFriendli E friendliModelId clientPayload = Inr payload"
    and "net (friendli_call endpoint token payload) = Inr r"
    and "\<not> ok r"
    and "200 \<le> status r" and "status r \<le> 599" and "status r \<noteq> 304"
    and "to_string E (first_available E r) = Inr s"
  shows "fst (POST E env (Inr clientPayload) net) =
           Inr (NextResponse (JObj [(lit ''error'', JStr (lit ''Friendli API Error: '' @ s))]) (status r))"
proof -
  have "300 \<le> status r"
    using assms(6,7) by (simp add: ok_def)
  then have "handle_response E r =
               Inr (NextResponse (JObj [(lit ''error'', JStr (lit ''Friendli API Error: '' @ s))]) (status r))"
    using assms(6,8,9,10)
    by (simp add: handle_response_def errorDetails_first_available NextResponse_json_accepted)
  then show ?thesis
    using assms(1-5) by (simp add: POST_configured try_block_response)
qed

text \<open>
  The claim as written fails on the provider's answer 429 with the body
  \<open>{"error": {"message": "rate limited"}}\<close>: the error string returned is not the
  field's value \<open>rate limited\<close>.
\<close>

theorem provider_error_counterexample:
  "fst (POST example_engine example_env (Inr example_body) (respond_with rate_limited)) =
     Inr (NextResponse (JObj [(lit ''error'', JStr (lit ''Friendli API Error: rate limited''))]) 429)
   \<and> fst (POST example_engine example_env (Inr example_body) (respond_with rate_limited)) \<noteq>
     Inr (NextResponse (JObj [(lit ''error'', JStr (lit ''rate limited''))]) 429)"
  by (simp add: example_gateway_defs rate_limited_def lit_def)

theorem provider_error_witness:
  "truthy_value (FRIENDLI_API_TOKEN example_env) = Some (lit ''secret'') \<and>
   \<not> ok bad_request \<and> status bad_request = 400 \<and>
   to_string example_engine (first_available example_engine bad_request) =
     Inr (lit ''prompt too long'') \<and>
   fst (POST example_engine example_env (Inr example_body) (respond_with bad_request)) =
     Inr (NextResponse (JObj [(lit ''error'', JStr (lit ''Friendli API Error: prompt too long''))]) 400) \<and>
   \<not> ok unavailable \<and> status unavailable = 503 \<and>
   fst (POST example_engine example_env (Inr example_body) (respond_with unavailable)) =
     Inr (NextResponse
            (JObj [(lit ''error'',
               JStr (lit (''Friendli API Error: {'' @ [CHR 0x22] @ ''code'' @ [CHR 0x22] @ '':17}'')))])
            503)"
  using provider_error_forwarded
    [of example_env "lit ''secret''" "lit ''https://provider/v1/images/generations''"
        "lit ''endpoint-1''" example_engine example_body example_payload
        "respond_with bad_request" bad_request "lit ''prompt too long''"]
    provider_error_forwarded
    [of example_env "lit ''secret''" "lit ''https://provider/v1/images/generations''"
        "lit ''endpoint-1''" example_engine example_body example_payload
        "respond_with unavailable" unavailable
        "lit (''{'' @ [CHR 0x22] @ ''code'' @ [CHR 0x22] @ '':17}'')"]
  by (simp add: example_env_def example_body_def example_payload_def payloadForFriendli_def
        member_def respond_with_def bad_request_def unavailable_def ok_def first_available_def
        example_engine_def quote_def escape_unit_def show_int_def lit_def)

lemma js_includes_iff: "js_includes s t \<longleftrightarrow> (\<exists>ps ss. s = ps @ t @ ss)"
proof (induction s)
  case Nil
  show ?case by auto
next
  case (Cons c s)
  have pre: "take (length t) (c # s) = t \<longleftrightarrow> (\<exists>ss. c # s = t @ ss)"
    by (metis append_eq_conv_conj append_take_drop_id)
  have "(\<exists>ps ss. c # s = ps @ t @ ss) \<longleftrightarrow>
          (\<exists>ss. c # s = t @ ss) \<or> (\<exists>ps ss. s = ps @ t @ ss)"
  proof
    assume "\<exists>ps ss. c # s = ps @ t @ ss"
    then obtain ps ss where e: "c # s = ps @ t @ ss" by blast
    show "(\<exists>ss. c # s = t @ ss) \<or> (\<exists>ps ss. s = ps @ t @ ss)"
    proof (cases ps)
      case Nil
      with e show ?thesis by auto
    next
      case (Cons p ps')
      with e have "s = ps' @ t @ ss" by simp
      then show ?thesis by blast
    qed
  next
    assume "(\<exists>ss. c # s = t @ ss) \<or> (\<exists>ps ss. s = ps @ t @ ss)"
    then show "\<exists>ps ss. c # s = ps @ t @ ss"
    proof
      assume "\<exists>ss. c # s = t @ ss"
      then obtain ss where "c # s = [] @ t @ ss" by auto
      then show ?thesis by blast
    next
      assume "\<exists>ps ss. s = ps @ t @ ss"
      then obtain ps ss where "c # s = (c # ps) @ t @ ss" by auto
      then show ?thesis by blast
    qed
  qed
  with Cons pre show ?case by simp
qed

lemma is_json_content_type_iff:
  "is_json_content_type c \<longleftrightarrow> (\<exists>ps ss. c = Some (ps @ lit ''application/json'' @ ss))"
proof (cases c)
  case None
  then show ?thesis by (simp add: is_json_content_type_def)
next
  case (Some ct)
  have "lit ''application/json'' \<noteq> []" by (simp add: lit_def)
  then have "ct \<noteq> []" if "ct = ps @ lit ''application/json'' @ ss" for ps ss
    using that by simp
  then show ?thesis
    using Some by (auto simp: is_json_content_type_def js_includes_iff)
qed

text \<open>
  C4, as the code has it. For a provider response with a status in 200 to 299: when the
  content-type header contains the text \<open>application/json\<close>, in exactly this spelling,
  and the body parses, the parsed body is returned as it is, with status 200; when the
  header is missing or does not contain that text, the handler returns status 500 and
  \<open>{ error: m }\<close>, where \<open>m\<close> is the fixed message when the body could be read as text
  and the message of the failure (or the fixed internal message) when it could not.
\<close>

theorem success_forwarded:
  assumes "truthy_value (FRIENDLI_API_TOKEN env) = Some token"
    and "truthy_value (FRIENDLI_API_ENDPOINT env) = Some endpoint"
    and "truthy_value (FRIENDLI_ENDPOINT_ID env) = Some friendliModelId"
    and "payloadForFriendli E friendliModelId clientPayload = Inr payload"
    and "net (Fetch endpoint
                \<lparr> http_method = lit ''POST'',
                  headers = [(lit ''Content-Type'', lit ''application/json''),
                             (lit ''Authorization'', lit ''Bearer '' @ token)],
                  body_payload = payload \<rparr>) = Inr r"
    and "ok r"
  shows "(content_type r = Some (ps @ lit ''application/json'' @ ss)
            \<and> res_json r = Inr responseData \<longrightarrow>
            fst (POST E env (Inr clientPayload) net) = Inr (NextResponse responseData 200))
       \<and> ((\<forall>ps ss. content_type r \<noteq> Some (ps @ lit ''application/json'' @ ss))
            \<and> res_text r = Inr responseText \<longrightarrow>
            fst (POST E env (Inr clientPayload) net) =
              Inr (NextResponse
                     (JObj [(lit ''error'',
                             JStr (lit ''Received unexpected response format from Friendli API.''))])
                     500))
       \<and> ((\<forall>ps ss. content_type r \<noteq> Some (ps @ lit ''application/json'' @ ss))
            \<and> res_text r = Inl e \<longrightarrow>
            fst (POST E env (Inr clientPayload) net) =
              Inr (NextResponse
                     (JObj [(lit ''error'',
                             JStr (if message e \<noteq> [] then message e
                                   else lit ''Internal Server Error occurred in API route.''))])
                     500))"
proof -
  have post: "fst (POST E env (Inr clientPayload) net) =
                (case handle_response E r of Inl e \<Rightarrow> catch_internal E e | Inr res \<Rightarrow> Inr res)"
    using assms(1-5)
    by (simp add: POST_configured try_block_response friendli_call_def split: sum.splits)
  have json: "is_json_content_type (content_type r)"
    if "content_type r = Some (ps @ lit ''application/json'' @ ss)"
    using that is_json_content_type_iff by blast
  have other: "\<not> is_json_content_type (content_type r)"
    if "\<forall>ps ss. content_type r \<noteq> Some (ps @ lit ''application/json'' @ ss)"
    using that is_json_content_type_iff by blast
  show ?thesis
    using assms(6) json other
    by (auto simp: post handle_response_def catch_internal_def NextResponse_json_accepted)
qed

text \<open>
  The claim as written fails on a provider's answer 200 with the header
  \<open>Content-Type: Application/JSON\<close> and a body that parses: the content type is JSON
  (media types do not depend on case), and the handler answers 500.
\<close>

theorem success_forwarded_counterexample:
  "ok capitalised \<and> content_type capitalised = Some (lit ''Application/JSON'')
   \<and> res_json capitalised =
       Inr (JObj [(lit ''data'', JArr [JObj [(lit ''url'', JStr (lit ''https://x/img.png''))]])])
   \<and> fst (POST example_engine example_env (Inr example_body) (respond_with capitalised)) =
       Inr (NextResponse
              (JObj [(lit ''error'',
                      JStr (lit ''Received unexpected response format from Friendli API.''))])
              500)
   \<and> fst (POST example_engine example_env (Inr example_body) (respond_with capitalised)) \<noteq>
       Inr (NextResponse
              (JObj [(lit ''data'', JArr [JObj [(lit ''url'', JStr (lit ''https://x/img.png''))]])])
              200)"
  by (simp add: example_gateway_defs capitalised_def lit_def)

theorem success_forwarded_witness:
  "ok generated
   \<and> content_type generated = Some ([] @ lit ''application/json'' @ lit ''; charset=utf-8'')
   \<and> fst (POST example_engine example_env (Inr example_body) (respond_with generated)) =
       Inr (NextResponse
              (JObj [(lit ''data'', JArr [JObj [(lit ''url'', JStr (lit ''https://x/img.png''))]])])
              200)
   \<and> ok html_page \<and> content_type html_page = Some (lit ''text/html'')
   \<and> fst (POST example_engine example_env (Inr example_body) (respond_with html_page)) =
       Inr (NextResponse
              (JObj [(lit ''error'',
                      JStr (lit ''Received unexpected response format from Friendli API.''))])
              500)"
proof -
  have env: "truthy_value (FRIENDLI_API_TOKEN example_env) = Some (lit ''secret'')"
    "truthy_value (FRIENDLI_API_ENDPOINT example_env) =
       Some (lit ''https://provider/v1/images/generations'')"
    "truthy_value (FRIENDLI_ENDPOINT_ID example_env) = Some (lit ''endpoint-1'')"
    by (simp_all add: example_env_def lit_def)
  have payload: "payloadForFriendli example_engine (lit ''endpoint-1'') example_body =
                   Inr example_payload"
    by (simp add: payloadForFriendli_def member_def example_body_def example_payload_def lit_def)
  have ct: "content_type generated =
              Some ([] @ lit ''application/json'' @ lit ''; charset=utf-8'')"
    by (simp add: generated_def lit_def)
  have "\<not> js_includes (lit ''text/html'') (lit ''application/json'')"
    by (simp add: lit_def)
  then have no: "\<forall>ps ss. content_type html_page \<noteq> Some (ps @ lit ''application/json'' @ ss)"
    by (simp add: html_page_def js_includes_iff)
  have a: "fst (POST example_engine example_env (Inr example_body) (respond_with generated)) =
       Inr (NextResponse
              (JObj [(lit ''data'', JArr [JObj [(lit ''url'', JStr (lit ''https://x/img.png''))]])])
              200)"
    using success_forwarded
      [OF env payload, of "respond_with generated" generated "[]" "lit ''; charset=utf-8''"] ct
    by (simp add: respond_with_def generated_def ok_def)
  have b: "fst (POST example_engine example_env (Inr example_body) (respond_with html_page)) =
       Inr (NextResponse
              (JObj [(lit ''error'',
                      JStr (lit ''Received unexpected response format from Friendli API.''))])
              500)"
    using success_forwarded
      [OF env payload, of "respond_with html_page" html_page _ _ _ "lit ''<html></html>''"] no
    by (simp add: respond_with_def html_page_def ok_def)
  show ?thesis
    using a b ct by (simp add: generated_def html_page_def ok_def)
qed

text \<open>
  C5. The one outbound call is a \<open>POST\<close> to the configured endpoint whose payload holds
  the client's seven fields as they are in the parsed body, and as \<open>model\<close> the
  identifier of the configuration. A second body that differs from the first only under
  the key \<open>model\<close> leads to the same outbound call, with the same \<open>model\<close>.
\<close>

theorem model_from_configuration_only:
  assumes "truthy_value (FRIENDLI_API_TOKEN env) = Some token"
    and "truthy_value (FRIENDLI_API_ENDPOINT env) = Some endpoint"
    and "truthy_value (FRIENDLI_ENDPOINT_ID env) = Some friendliModelId"
    and "clientPayload \<noteq> JNull"
  shows "snd (POST E env (Inr clientPayload) net) =
           [Fetch endpoint
              \<lparr> http_method = lit ''POST'',
                headers = [(lit ''Content-Type'', lit ''application/json''),
                           (lit ''Authorization'', lit ''Bearer '' @ token)],
                body_payload =
                  \<lparr> model = friendliModelId,
                    fr_prompt = get_prop clientPayload (lit ''prompt''),
                    fr_negative_prompt = get_prop clientPayload (lit ''negative_prompt''),
                    fr_num_inference_steps = get_prop clientPayload (lit ''num_inference_steps''),
                    fr_guidance_scale = get_prop clientPayload (lit ''guidance_scale''),
                    fr_width = get_prop clientPayload (lit ''width''),
                    fr_height = get_prop clientPayload (lit ''height''),
                    fr_response_format = get_prop clientPayload (lit ''response_format'') \<rparr> \<rparr>]
       \<and> (\<forall>other net'.
             other \<noteq> JNull
             \<and> (\<forall>k. k \<noteq> lit ''model'' \<longrightarrow> get_prop other k = get_prop clientPayload k)
             \<longrightarrow> snd (POST E env (Inr other) net') = snd (POST E env (Inr clientPayload) net)
                \<and> map (model \<circ> body_payload \<circ> init) (snd (POST E env (Inr other) net')) =
                    [friendliModelId])"
proof -
  have calls: "snd (POST E env (Inr c) n) =
           [Fetch endpoint
              \<lparr> http_method = lit ''POST'',
                headers = [(lit ''Content-Type'', lit ''application/json''),
                           (lit ''Authorization'', lit ''Bearer '' @ token)],
                body_payload =
                  \<lparr> model = friendliModelId,
                    fr_prompt = get_prop c (lit ''prompt''),
                    fr_negative_prompt = get_prop c (lit ''negative_prompt''),
                    fr_num_inference_steps = get_prop c (lit ''num_inference_steps''),
                    fr_guidance_scale = get_prop c (lit ''guidance_scale''),
                    fr_width = get_prop c (lit ''width''),
                    fr_height = get_prop c (lit ''height''),
                    fr_response_format = get_prop c (lit ''response_format'') \<rparr> \<rparr>]"
    if "c \<noteq> JNull" for c and n :: "'a FriendliApiPayload call \<Rightarrow> exn + 'a response"
    using that assms(1-3)
    by (simp add: POST_configured try_block_def payloadForFriendli_def member_def
          friendli_call_def split: sum.splits prod.splits)
  have neq: "lit ''prompt'' \<noteq> lit ''model''" "lit ''negative_prompt'' \<noteq> lit ''model''"
    "lit ''num_inference_steps'' \<noteq> lit ''model''" "lit ''guidance_scale'' \<noteq> lit ''model''"
    "lit ''width'' \<noteq> lit ''model''" "lit ''height'' \<noteq> lit ''model''"
    "lit ''response_format'' \<noteq> lit ''model''"
    by (simp_all add: lit_def)
  show ?thesis
    using calls[OF assms(4)] calls neq by simp
qed

theorem model_from_configuration_witness:
  "get_prop injected_body (lit ''model'') = Some (JStr (lit ''endpoint-of-someone-else''))
   \<and> snd (POST example_engine example_env (Inr injected_body) (respond_with rate_limited)) =
       [Fetch (lit ''https://provider/v1/images/generations'')
          \<lparr> http_method = lit ''POST'',
            headers = [(lit ''Content-Type'', lit ''application/json''),
                       (lit ''Authorization'', lit ''Bearer secret'')],
            body_payload =
              \<lparr> model = lit ''endpoint-1'',
                fr_prompt = Some (JStr (lit ''a red cube'')),
                fr_negative_prompt = None,
                fr_num_inference_steps = Some (JNum 30),
                fr_guidance_scale = Some (JNum 7),
                fr_width = Some (JNum 1024),
                fr_height = Some (JNum 1024),
                fr_response_format = Some (JStr (lit ''url'')) \<rparr> \<rparr>]
   \<and> snd (POST example_engine example_env (Inr injected_body) (respond_with rate_limited)) =
       snd (POST example_engine example_env (Inr example_body) (respond_with generated))
   \<and> map (model \<circ> body_payload \<circ> init)
        (snd (POST example_engine example_env (Inr injected_body) (respond_with rate_limited))) =
       [lit ''endpoint-1'']"
proof -
  have same: "\<forall>k. k \<noteq> lit ''model'' \<longrightarrow> get_prop injected_body k = get_prop example_body k"
    by (simp add: injected_body_def example_body_def)
  have ne: "example_body \<noteq> JNull" "injected_body \<noteq> JNull"
    by (simp_all add: injected_body_def example_body_def)
  have env: "truthy_value (FRIENDLI_API_TOKEN example_env) = Some (lit ''secret'')"
    "truthy_value (FRIENDLI_API_ENDPOINT example_env) =
       Some (lit ''https://provider/v1/images/generations'')"
    "truthy_value (FRIENDLI_ENDPOINT_ID example_env) = Some (lit ''endpoint-1'')"
    by (simp_all add: example_env_def lit_def)
  have m: "get_prop injected_body (lit ''model'') = Some (JStr (lit ''endpoint-of-someone-else''))"
    by (simp add: injected_body_def)
  have first: "snd (POST example_engine example_env (Inr injected_body) (respond_with rate_limited)) =
       [Fetch (lit ''https://provider/v1/images/generations'')
          \<lparr> http_method = lit ''POST'',
            headers = [(lit ''Content-Type'', lit ''application/json''),
                       (lit ''Authorization'', lit ''Bearer secret'')],
            body_payload =
              \<lparr> model = lit ''endpoint-1'',
                fr_prompt = Some (JStr (lit ''a red cube'')),
                fr_negative_prompt = None,
                fr_num_inference_steps = Some (JNum 30),
                fr_guidance_scale = Some (JNum 7),
                fr_width = Some (JNum 1024),
                fr_height = Some (JNum 1024),
                fr_response_format = Some (JStr (lit ''url'')) \<rparr> \<rparr>]"
    using model_from_configuration_only
      [OF env ne(2), of example_engine "respond_with rate_limited"]
    by (simp add: injected_body_def lit_def)
  have second:
    "snd (POST example_engine example_env (Inr injected_body) (respond_with rate_limited)) =
       snd (POST example_engine example_env (Inr example_body) (respond_with generated))
     \<and> map (model \<circ> body_payload \<circ> init)
        (snd (POST example_engine example_env (Inr injected_body) (respond_with rate_limited))) =
       [lit ''endpoint-1'']"
    using model_from_configuration_only
      [OF env ne(1), of example_engine "respond_with generated"] same ne(2)
    by blast
  show ?thesis using m first second by simp
qed

text \<open>
  C6. The handler always returns a response, never an exception. Every exception that
  reaches the outer \<open>catch\<close> becomes status 500 with the body \<open>{ error: m }\<close>, where the
  string \<open>m\<close> is the exception's message, or the fixed message when that is empty. This
  is so when the request body cannot be parsed (no outbound call is made), when it
  parses to \<open>null\<close>, when the outbound call fails, and when the body of a provider's
  answer 200 cannot be read.
\<close>

theorem exceptions_become_status_500:
  "(\<exists>res. fst (POST E env request_json net) = Inr res)
   \<and> (truthy_value (FRIENDLI_API_TOKEN env) = Some token
        \<and> truthy_value (FRIENDLI_API_ENDPOINT env) = Some endpoint
        \<and> truthy_value (FRIENDLI_ENDPOINT_ID env) = Some friendliModelId
      \<longrightarrow>
        (\<forall>e calls.
            try_block E token endpoint friendliModelId request_json net = (Inl e, calls) \<longrightarrow>
            POST E env request_json net =
              (Inr (NextResponse
                      (JObj [(lit ''error'',
                              JStr (if message e \<noteq> [] then message e
                                    else lit ''Internal Server Error occurred in API route.''))])
                      500),
               calls))
        \<and> (\<forall>e. request_json = Inl e \<longrightarrow>
              POST E env request_json net =
                (Inr (NextResponse
                        (JObj [(lit ''error'',
                                JStr (if message e \<noteq> [] then message e
                                      else lit ''Internal Server Error occurred in API route.''))])
                        500),
                 []))
        \<and> (request_json = Inr JNull \<longrightarrow>
              POST E env request_json net =
                (Inr (NextResponse
                        (JObj [(lit ''error'',
                                JStr (if null_property_message E (lit ''prompt'') \<noteq> []
                                      then null_property_message E (lit ''prompt'')
                                      else lit ''Internal Server Error occurred in API route.''))])
                        500),
                 []))
        \<and> (\<forall>clientPayload payload e.
              request_json = Inr clientPayload
              \<and> payloadForFriendli E friendliModelId clientPayload = Inr payload
              \<and> net (Fetch endpoint
                        \<lparr> http_method = lit ''POST'',
                          headers = [(lit ''Content-Type'', lit ''application/json''),
                                     (lit ''Authorization'', lit ''Bearer '' @ token)],
                          body_payload = payload \<rparr>) = Inl e \<longrightarrow>
              POST E env request_json net =
                (Inr (NextResponse
                        (JObj [(lit ''error'',
                                JStr (if message e \<noteq> [] then message e
                                      else lit ''Internal Server Error occurred in API route.''))])
                        500),
                 [Fetch endpoint
                    \<lparr> http_method = lit ''POST'',
                      headers = [(lit ''Content-Type'', lit ''application/json''),
                                 (lit ''Authorization'', lit ''Bearer '' @ token)],
                      body_payload = payload \<rparr>]))
        \<and> (\<forall>clientPayload payload r e.
              request_json = Inr clientPayload
              \<and> payloadForFriendli E friendliModelId clientPayload = Inr payload
              \<and> net (Fetch endpoint
                        \<lparr> http_method = lit ''POST'',
                          headers = [(lit ''Content-Type'', lit ''application/json''),
                                     (lit ''Authorization'', lit ''Bearer '' @ token)],
                          body_payload = payload \<rparr>) = Inr r
              \<and> ok r
              \<and> (is_json_content_type (content_type r) \<and> res_json r = Inl e
                   \<or> \<not> is_json_content_type (content_type r) \<and> res_text r = Inl e)
              \<longrightarrow>
              fst (POST E env request_json net) =
                Inr (NextResponse
                       (JObj [(lit ''error'',
                               JStr (if message e \<noteq> [] then message e
                                     else lit ''Internal Server Error occurred in API route.''))])
                       500)))"
proof -
  have total: "\<exists>res. fst (POST E env request_json net) = Inr res"
    by (auto simp: POST_def config_error_def catch_internal_def NextResponse_json_accepted
          split: option.splits sum.splits prod.splits)
  have null: "payloadForFriendli E friendliModelId JNull =
                Inl (JsError (null_property_message E (lit ''prompt'')))"
    by (simp add: payloadForFriendli_def member_def)
  show ?thesis
    using total null
    by (auto simp: POST_configured catch_internal_def try_block_def friendli_call_def
          handle_response_def NextResponse_json_accepted)
qed

theorem exceptions_become_status_500_witness:
  "POST example_engine example_env (Inl (JsError (lit ''Unexpected end of JSON input'')))
     (respond_with generated) =
     (Inr (NextResponse
             (JObj [(lit ''error'', JStr (lit ''Unexpected end of JSON input''))]) 500), [])
   \<and> POST example_engine example_env (Inr example_body) (fail_with (JsError [])) =
     (Inr (NextResponse
             (JObj [(lit ''error'', JStr (lit ''Internal Server Error occurred in API route.''))])
             500),
      [Fetch (lit ''https://provider/v1/images/generations'')
         \<lparr> http_method = lit ''POST'',
           headers = [(lit ''Content-Type'', lit ''application/json''),
                      (lit ''Authorization'', lit ''Bearer secret'')],
           body_payload =
             \<lparr> model = lit ''endpoint-1'',
               fr_prompt = Some (JStr (lit ''a red cube'')),
               fr_negative_prompt = None,
               fr_num_inference_steps = Some (JNum 30),
               fr_guidance_scale = Some (JNum 7),
               fr_width = Some (JNum 1024),
               fr_height = Some (JNum 1024),
               fr_response_format = Some (JStr (lit ''url'')) \<rparr> \<rparr>])
   \<and> POST example_engine example_env (Inr JNull) (respond_with generated) =
     (Inr (NextResponse
             (JObj [(lit ''error'',
                     JStr (lit (''Cannot read properties of null (reading '' @ [CHR 0x27] @ ''prompt''
                                 @ [CHR 0x27] @ '')'')))]) 500), [])
   \<and> fst (POST example_engine example_env (Inr example_body) (respond_with truncated)) =
     Inr (NextResponse
            (JObj [(lit ''error'', JStr (lit ''Unexpected end of JSON input''))]) 500)"
proof -
  have env: "truthy_value (FRIENDLI_API_TOKEN example_env) = Some (lit ''secret'')
    \<and> truthy_value (FRIENDLI_API_ENDPOINT example_env) =
       Some (lit ''https://provider/v1/images/generations'')
    \<and> truthy_value (FRIENDLI_ENDPOINT_ID example_env) = Some (lit ''endpoint-1'')"
    by (simp add: example_env_def lit_def)
  have payload: "payloadForFriendli example_engine (lit ''endpoint-1'') example_body =
                   Inr example_payload"
    by (simp add: payloadForFriendli_def member_def example_body_def example_payload_def lit_def)
  have msg: "null_property_message example_engine (lit ''prompt'') =
               lit (''Cannot read properties of null (reading '' @ [CHR 0x27] @ ''prompt''
                    @ [CHR 0x27] @ '')'')"
    by (simp add: example_engine_def lit_def)
  have msgs: "lit ''Unexpected end of JSON input'' \<noteq> []"
    "lit (''Cannot read properties of null (reading '' @ [CHR 0x27] @ ''prompt''
          @ [CHR 0x27] @ '')'') \<noteq> []"
    "lit ''Bearer '' @ lit ''secret'' = lit ''Bearer secret''"
    by (simp_all add: lit_def)
  have json: "is_json_content_type (content_type truncated)"
    by (simp add: is_json_content_type_def truncated_def lit_def)
  have a: "POST example_engine example_env (Inl (JsError (lit ''Unexpected end of JSON input'')))
     (respond_with generated) =
     (Inr (NextResponse
             (JObj [(lit ''error'', JStr (lit ''Unexpected end of JSON input''))]) 500), [])"
    using exceptions_become_status_500
      [of example_engine example_env "Inl (JsError (lit ''Unexpected end of JSON input''))"
          "respond_with generated" "lit ''secret''" "lit ''https://provider/v1/images/generations''"
          "lit ''endpoint-1''"] env msgs
    by simp
  have b: "POST example_engine example_env (Inr example_body) (fail_with (JsError [])) =
     (Inr (NextResponse
             (JObj [(lit ''error'', JStr (lit ''Internal Server Error occurred in API route.''))])
             500),
      [Fetch (lit ''https://provider/v1/images/generations'')
         \<lparr> http_method = lit ''POST'',
           headers = [(lit ''Content-Type'', lit ''application/json''),
                      (lit ''Authorization'', lit ''Bearer secret'')],
           body_payload =
             \<lparr> model = lit ''endpoint-1'',
               fr_prompt = Some (JStr (lit ''a red cube'')),
               fr_negative_prompt = None,
               fr_num_inference_steps = Some (JNum 30),
               fr_guidance_scale = Some (JNum 7),
               fr_width = Some (JNum 1024),
               fr_height = Some (JNum 1024),
               fr_response_format = Some (JStr (lit ''url'')) \<rparr> \<rparr>])"
    using exceptions_become_status_500
      [of example_engine example_env "Inr example_body" "fail_with (JsError [])"
          "lit ''secret''" "lit ''https://provider/v1/images/generations''" "lit ''endpoint-1''"]
      env payload msgs
    by (simp add: fail_with_def example_payload_def)
  have c: "POST example_engine example_env (Inr JNull) (respond_with generated) =
     (Inr (NextResponse
             (JObj [(lit ''error'',
                     JStr (lit (''Cannot read properties of null (reading '' @ [CHR 0x27] @ ''prompt''
                                 @ [CHR 0x27] @ '')'')))]) 500), [])"
    using exceptions_become_status_500
      [of example_engine example_env "Inr JNull" "respond_with generated"
          "lit ''secret''" "lit ''https://provider/v1/images/generations''" "lit ''endpoint-1''"]
      env msg msgs
    by simp
  have d: "fst (POST example_engine example_env (Inr example_body) (respond_with truncated)) =
     Inr (NextResponse
            (JObj [(lit ''error'', JStr (lit ''Unexpected end of JSON input''))]) 500)"
    using exceptions_become_status_500
      [of example_engine example_env "Inr example_body" "respond_with truncated"
          "lit ''secret''" "lit ''https://provider/v1/images/generations''" "lit ''endpoint-1''"]
      env payload msgs json
    by (simp add: respond_with_def truncated_def ok_def)
  show ?thesis using a b c d by simp
qed

section \<open>Properties of the composer\<close>

lemma trim_empty_iff: "trim s = [] \<longleftrightarrow> (\<forall>c\<in>set s. is_js_whitespace c)"
proof
  assume "trim s = []"
  then have "dropWhile is_js_whitespace (rev (dropWhile is_js_whitespace s)) = []"
    by (simp add: trim_def)
  then have "\<forall>c\<in>set (dropWhile is_js_whitespace s). is_js_whitespace c"
    by (simp add: dropWhile_eq_Nil_conv)
  then have "dropWhile is_js_whitespace s = []"
    by (metis hd_dropWhile list.set_sel(1))
  then show "\<forall>c\<in>set s. is_js_whitespace c"
    by (simp add: dropWhile_eq_Nil_conv)
next
  assume "\<forall>c\<in>set s. is_js_whitespace c"
  then have "dropWhile is_js_whitespace s = []"
    by (simp add: dropWhile_eq_Nil_conv)
  then show "trim s = []"
    unfolding trim_def by (simp only: rev.simps dropWhile.simps)
qed

lemma api_route_call_begin: "api_route_call E (fst (begin_generation st)) = api_route_call E st"
  by (simp add: begin_generation_def api_route_call_def payloadForApiRoute_def Let_def
        split: option.splits)

lemma handleGenerateClick_accepted:
  assumes "trim (prompt st) \<noteq> []"
  shows "handleGenerateClick E now net st =
     ((case net (api_route_call E st) of
         Inl e \<Rightarrow> catch_generation e (fst (begin_generation st))
       | Inr r \<Rightarrow>
           (case process_response E now r (fst (begin_generation st)) of
              Inl e \<Rightarrow> catch_generation e (fst (begin_generation st))
            | Inr s \<Rightarrow> s)) \<lparr> isLoading := False \<rparr>,
      snd (begin_generation st) @ [Network (api_route_call E st)])"
proof -
  obtain st2 revoked where b: "begin_generation st = (st2, revoked)"
    by (cases "begin_generation st")
  then have c: "api_route_call E st2 = api_route_call E st"
    using api_route_call_begin[of E st] by simp
  show ?thesis
    using assms by (simp add: handleGenerateClick_def generate_try_def b c split: sum.splits)
qed

lemma begin_generation_fields:
  "prompt (fst (begin_generation st)) = prompt st"
  "generationHistory (fst (begin_generation st)) = generationHistory st"
  "generatedImageUrl (fst (begin_generation st)) = None"
  "error (fst (begin_generation st)) = None"
  by (simp_all add: begin_generation_def Let_def split: option.splits)

lemma example_prompt_accepted: "trim (lit ''a red cube'') \<noteq> []"
  by (simp add: trim_def lit_def is_js_whitespace_def)

lemma example_image_url:
  "imageUrlFromApi
     (JObj [(lit ''data'', JArr [JObj [(lit ''url'', JStr (lit ''https://x/img.png''))]])]) =
   Some (JStr (lit ''https://x/img.png'') :: int json)"
  "imageUrlFromApi (JObj [(lit ''data'', JArr [])]) = (None :: int json option)"
  by (simp_all add: imageUrlFromApi_def lit_def)

text \<open>
  C3. When the prompt is empty or consists of white space only, the handler has no
  effect on the world (no network call) and only sets the validation message.
\<close>

theorem empty_prompt_rejected:
  assumes "\<forall>c\<in>set (prompt st). is_js_whitespace c"
  shows "handleGenerateClick E now net st =
           (st\<lparr> error := Some (lit ''Please enter a prompt to generate an image.'') \<rparr>, [])"
  using assms by (simp add: handleGenerateClick_def trim_empty_iff)

theorem empty_prompt_rejected_witness:
  "trim (lit '' '') = [] \<and>
   handleGenerateClick example_engine 77 (respond_with generated)
     (example_page\<lparr> prompt := lit '' '' \<rparr>) =
     (example_page\<lparr> prompt := lit '' '',
                     error := Some (lit ''Please enter a prompt to generate an image.'') \<rparr>, [])"
  using empty_prompt_rejected
    [of "example_page\<lparr> prompt := lit '' '' \<rparr>" example_engine 77 "respond_with generated"]
  by (simp add: lit_def is_js_whitespace_def trim_def)

text \<open>
  C7. When the route answers with a status in 200 to 299 and a body with nothing truthy
  at \<open>data[0].url\<close>, the handler sets the error message \<open>API response structure unexpected
  or missing image URL.\<close> and leaves the displayed image unset.
\<close>

theorem missing_image_url_is_error:
  assumes "trim (prompt st) \<noteq> []"
    and "net (api_route_call E st) = Inr r"
    and "ok r"
    and "res_json r = Inr responseData"
    and "\<not> truthy E (imageUrlFromApi responseData)"
  shows "error (fst (handleGenerateClick E now net st)) =
           Some (lit ''API response structure unexpected or missing image URL.'')
       \<and> js_includes (lit ''API response structure unexpected or missing image URL.'')
            (lit ''response structure unexpected'')
       \<and> generatedImageUrl (fst (handleGenerateClick E now net st)) = None"
proof -
  have "process_response E now r (fst (begin_generation st)) =
          Inl (JsError (lit ''API response structure unexpected or missing image URL.''))"
    using assms(3-5) by (auto simp: process_response_def split: option.splits)
  moreover have "lit ''API response structure unexpected or missing image URL.'' \<noteq> []"
    by (simp add: lit_def)
  moreover have "js_includes (lit ''API response structure unexpected or missing image URL.'')
            (lit ''response structure unexpected'')"
    by (simp add: lit_def)
  ultimately show ?thesis
    using assms(1,2) by (simp add: handleGenerateClick_accepted catch_generation_def)
qed

theorem missing_image_url_witness:
  "trim (prompt example_page) \<noteq> [] \<and> ok no_images
   \<and> \<not> truthy example_engine (imageUrlFromApi (JObj [(lit ''data'', JArr [])]))
   \<and> error (fst (handleGenerateClick example_engine 77 (respond_with no_images) example_page)) =
       Some (lit ''API response structure unexpected or missing image URL.'')
   \<and> generatedImageUrl
       (fst (handleGenerateClick example_engine 77 (respond_with no_images) example_page)) = None"
  using missing_image_url_is_error
    [of example_page "respond_with no_images" example_engine no_images
        "JObj [(lit ''data'', JArr [])]" 77]
    example_prompt_accepted example_image_url(2)
  by (simp add: example_page_def respond_with_def no_images_def ok_def)

text \<open>
  C8. A generation that succeeds (a response with a status in 200 to 299 whose body has
  a truthy value at \<open>data[0].url\<close>) puts the new entry in front of the first nine entries
  of the history, so that the new length is \<open>min (n + 1) 10\<close>; every other run of the
  handler leaves the history as it was.
\<close>

theorem history_prepended_and_capped:
  "(trim (prompt st) \<noteq> [] \<and> net (api_route_call E st) = Inr r \<and> ok r \<and> res_json r = Inr d
      \<and> imageUrlFromApi d = Some u \<and> truthy E (Some u) \<longrightarrow>
        generationHistory (fst (handleGenerateClick E now net st)) =
          \<lparr> imageUrl = u, entry_prompt = prompt st, timestamp = now \<rparr>
          # take 9 (generationHistory st)
        \<and> length (generationHistory (fst (handleGenerateClick E now net st))) =
            min (length (generationHistory st) + 1) 10)
   \<and> (\<not> (\<exists>r d u. trim (prompt st) \<noteq> [] \<and> net (api_route_call E st) = Inr r \<and> ok r
               \<and> res_json r = Inr d \<and> imageUrlFromApi d = Some u \<and> truthy E (Some u)) \<longrightarrow>
        generationHistory (fst (handleGenerateClick E now net st)) = generationHistory st)"
proof (cases "trim (prompt st) = []")
  case True
  then show ?thesis by (simp add: handleGenerateClick_def)
next
  case False
  have old: "generationHistory (catch_generation e (fst (begin_generation st))) =
               generationHistory st" for e
    by (simp add: catch_generation_def begin_generation_fields)
  show ?thesis
  proof (cases "net (api_route_call E st)")
    case (Inl e)
    then show ?thesis using False by (simp add: handleGenerateClick_accepted old)
  next
    case (Inr r)
    show ?thesis
      using False Inr
      by (auto simp: handleGenerateClick_accepted old process_response_def
            begin_generation_fields min_def split: sum.splits option.splits)
  qed
qed

theorem history_witness:
  "generationHistory
     (fst (handleGenerateClick example_engine 77 (respond_with generated) example_page)) =
     [\<lparr> imageUrl = JStr (lit ''https://x/img.png''), entry_prompt = lit ''a red cube'',
        timestamp = 77 \<rparr>]
   \<and> length (generationHistory
        (fst (handleGenerateClick example_engine 77 (respond_with generated)
               (example_page\<lparr> generationHistory := full_history \<rparr>)))) = 10
   \<and> generationHistory
        (fst (handleGenerateClick example_engine 77 (respond_with no_images)
               (example_page\<lparr> generationHistory := full_history \<rparr>))) = full_history"
proof -
  have l: "lit ''https://x/img.png'' \<noteq> []" by (simp add: lit_def)
  have a: "generationHistory
     (fst (handleGenerateClick example_engine 77 (respond_with generated) example_page)) =
     [\<lparr> imageUrl = JStr (lit ''https://x/img.png''), entry_prompt = lit ''a red cube'',
        timestamp = 77 \<rparr>]"
    using history_prepended_and_capped
      [where st = example_page and E = example_engine and net = "respond_with generated"
         and r = generated and u = "JStr (lit ''https://x/img.png'')" and now = 77
         and d = "JObj [(lit ''data'',
                         JArr [JObj [(lit ''url'', JStr (lit ''https://x/img.png''))]])]"]
      example_prompt_accepted example_image_url(1) l
    by (simp add: example_page_def respond_with_def generated_def ok_def)
  have b: "length (generationHistory
        (fst (handleGenerateClick example_engine 77 (respond_with generated)
               (example_page\<lparr> generationHistory := full_history \<rparr>)))) = 10"
    using history_prepended_and_capped
      [where st = "example_page\<lparr> generationHistory := full_history \<rparr>"
         and E = example_engine and net = "respond_with generated"
         and r = generated and u = "JStr (lit ''https://x/img.png'')" and now = 77
         and d = "JObj [(lit ''data'',
                         JArr [JObj [(lit ''url'', JStr (lit ''https://x/img.png''))]])]"]
      example_prompt_accepted example_image_url(1) l
    by (simp add: example_page_def respond_with_def generated_def ok_def full_history_def)
  have c: "generationHistory
        (fst (handleGenerateClick example_engine 77 (respond_with no_images)
               (example_page\<lparr> generationHistory := full_history \<rparr>))) = full_history"
    using history_prepended_and_capped
      [where st = "example_page\<lparr> generationHistory := full_history \<rparr>"
         and E = example_engine and net = "respond_with no_images" and now = 77]
      example_image_url(2)
    by (auto simp: example_page_def respond_with_def no_images_def)
  show ?thesis using a b c by simp
qed

text \<open>
  C9. Every run of the handler that passes the prompt check ends with the loading flag
  cleared, whatever the network and the response do; a run that stops at the prompt
  check never sets the flag and leaves it as it was.
\<close>

theorem loading_flag_cleared:
  "(trim (prompt st) \<noteq> [] \<longrightarrow> \<not> isLoading (fst (handleGenerateClick E now net st)))
   \<and> (trim (prompt st) = [] \<longrightarrow>
        isLoading (fst (handleGenerateClick E now net st)) = isLoading st)"
proof (cases "trim (prompt st) = []")
  case True
  then show ?thesis
    by (simp add: handleGenerateClick_def)
next
  case False
  then show ?thesis
    by (simp add: handleGenerateClick_accepted)
qed

theorem loading_flag_cleared_witness:
  "trim (prompt example_page) \<noteq> []
   \<and> \<not> isLoading (fst (handleGenerateClick example_engine 77 (respond_with generated) example_page))
   \<and> \<not> isLoading (fst (handleGenerateClick example_engine 77 (respond_with rate_limited)
                        example_page))
   \<and> \<not> isLoading (fst (handleGenerateClick example_engine 77 (respond_with no_images)
                        example_page))
   \<and> \<not> isLoading (fst (handleGenerateClick example_engine 77
                        (fail_with (JsError (lit ''Failed to fetch''))) example_page))"
  using loading_flag_cleared [of example_page example_engine 77 "respond_with generated"]
    loading_flag_cleared [of example_page example_engine 77 "respond_with rate_limited"]
    loading_flag_cleared [of example_page example_engine 77 "respond_with no_images"]
    loading_flag_cleared
      [of example_page example_engine 77 "fail_with (JsError (lit ''Failed to fetch''))"]
    example_prompt_accepted
  by (simp add: example_page_def)

text \<open>
  C10. Every request the handler sends carries \<open>negative_prompt\<close> as the negative prompt
  text when that is not empty and as \<open>undefined\<close> when it is empty, never as the empty
  string.
\<close>

theorem negative_prompt_only_when_nonempty:
  assumes "Network c \<in> set (snd (handleGenerateClick E now net st))"
  shows "negative_prompt (body_payload (init c)) =
           (if negativePrompt st = [] then None else Some (negativePrompt st))
       \<and> negative_prompt (body_payload (init c)) \<noteq> Some []"
proof (cases "trim (prompt st) = []")
  case True
  then show ?thesis using assms by (simp add: handleGenerateClick_def)
next
  case False
  then have "c = api_route_call E st"
    using assms
    by (auto simp: handleGenerateClick_accepted begin_generation_def Let_def split: option.splits)
  then show ?thesis
    by (simp add: api_route_call_def payloadForApiRoute_def split: prod.splits)
qed

theorem negative_prompt_witness:
  "Network (api_route_call example_engine example_page)
     \<in> set (snd (handleGenerateClick example_engine 77 (respond_with generated) example_page))
   \<and> negativePrompt example_page = []
   \<and> negative_prompt (body_payload (init (api_route_call example_engine example_page))) = None"
proof -
  have sent: "Network (api_route_call example_engine example_page)
     \<in> set (snd (handleGenerateClick example_engine 77 (respond_with generated) example_page))"
  proof -
    have "trim (prompt example_page) \<noteq> []"
      using example_prompt_accepted by (simp add: example_page_def)
    then show ?thesis
      by (simp add: handleGenerateClick_accepted)
  qed
  have empty: "negativePrompt example_page = []"
    by (simp add: example_page_def)
  show ?thesis
    using negative_prompt_only_when_nonempty [OF sent] sent empty by simp
qed

end
